theory Spec2Isabelle
  imports Complex_Main
begin

section \<open>The texture loader (src/textureLoader.ts)\<close>

text \<open>
  The class \<^verbatim>\<open>TextureLoader\<close> keeps two maps keyed by URL and a counter.  Its method
  \<^verbatim>\<open>loadTexture\<close> is an \<^verbatim>\<open>async\<close> function: JavaScript runs it without interruption
  up to its first \<^verbatim>\<open>await\<close>, and runs each continuation without interruption as well.
  The model has one atomic step for each such segment:
  \<^item> \<open>loadTexture\<close>: the synchronous prefix of a call, which includes the synchronous
    prefix of \<^verbatim>\<open>_loadTextureInternal\<close> (up to \<^verbatim>\<open>await fetch\<close>);
  \<^item> \<open>resumeInternal\<close>: the rest of \<^verbatim>\<open>_loadTextureInternal\<close>, run when fetch and decode
    have succeeded or thrown (the three awaits touch no field of the loader in
    between, so they form one suspension);
  \<^item> \<open>resumeLoadTexture\<close>: the continuation of the call that started the load, after
    \<^verbatim>\<open>await loadingPromise\<close>, which deletes the entry of \<^verbatim>\<open>loadingPromises\<close>.

  Besides the fields of the class, the state records what the environment holds: the
  suspended invocations, the continuations that are ready to run, and the traces of
  the calls to \<^verbatim>\<open>fetch\<close> and \<^verbatim>\<open>copyExternalImageToTexture\<close>.  The method \<^verbatim>\<open>clear\<close>, which
  nothing calls, is left out.
\<close>

type_synonym url = string

type_synonym promise = nat

record LoadedTexture =
  textureIndex :: nat
  bitmap :: "nat \<times> nat"

text \<open>An invocation of \<^verbatim>\<open>_loadTextureInternal\<close> suspended at its awaits: the promise it
  returned, its argument and its local constant \<^verbatim>\<open>textureIndex\<close>.\<close>

record suspended_load =
  sl_promise :: promise
  sl_url :: url
  sl_textureIndex :: nat

record TextureLoader =
  maxTextures :: nat
  loadedTextures :: "url \<rightharpoonup> LoadedTexture"
  loadingPromises :: "url \<rightharpoonup> promise"
  nextTextureIndex :: nat
  suspended :: "suspended_load list"
  resumable :: "url list"
  fetches :: "url list"
  uploads :: "(url \<times> nat) list"
  failures :: "url list"
  nextPromise :: promise

text \<open>The constructor.\<close>

definition newTextureLoader :: "nat \<Rightarrow> TextureLoader" where
  "newTextureLoader n =
     \<lparr> maxTextures = n, loadedTextures = Map.empty, loadingPromises = Map.empty,
       nextTextureIndex = 0, suspended = [], resumable = [], fetches = [],
       uploads = [], failures = [], nextPromise = 0 \<rparr>"

text \<open>What a call of \<^verbatim>\<open>loadTexture\<close> hands back: the cached texture, the promise already
  registered for the URL, the promise of a load it has just started, or the error thrown
  when the texture array is full.\<close>

datatype load_result =
    Cached LoadedTexture
  | Joined promise
  | Started promise
  | TextureArrayFull

text \<open>The synchronous prefix of \<^verbatim>\<open>_loadTextureInternal\<close>: it reads the counter into
  \<^verbatim>\<open>textureIndex\<close>, calls \<^verbatim>\<open>fetch\<close> and suspends.\<close>

definition loadTextureInternal :: "url \<Rightarrow> TextureLoader \<Rightarrow> promise \<times> TextureLoader" where
  "loadTextureInternal u s =
     (let textureIndex = nextTextureIndex s;
          p = nextPromise s
      in (p, s\<lparr> suspended := suspended s @
                   [\<lparr> sl_promise = p, sl_url = u, sl_textureIndex = textureIndex \<rparr>],
                fetches := fetches s @ [u],
                nextPromise := p + 1 \<rparr>))"

definition loadTexture :: "url \<Rightarrow> TextureLoader \<Rightarrow> load_result \<times> TextureLoader" where
  "loadTexture u s =
     (case loadedTextures s u of
        Some t \<Rightarrow> (Cached t, s)
      | None \<Rightarrow>
         (case loadingPromises s u of
            Some p \<Rightarrow> (Joined p, s)
          | None \<Rightarrow>
             if nextTextureIndex s \<ge> maxTextures s then (TextureArrayFull, s)
             else
               (let (loadingPromise, s') = loadTextureInternal u s
                in (Started loadingPromise,
                    s'\<lparr> loadingPromises := (loadingPromises s')(u \<mapsto> loadingPromise) \<rparr>))))"

text \<open>How a suspended load goes on: with a decoded bitmap (its width and height), or
  with an exception thrown inside its try block, which the load logs and throws again.\<close>

datatype fetch_result = Decoded "nat \<times> nat" | Failed

text \<open>The rest of \<^verbatim>\<open>_loadTextureInternal\<close>.  The promise it settles was awaited by the
  call that started it, whose continuation becomes ready.\<close>

definition resumeInternal :: "promise \<Rightarrow> fetch_result \<Rightarrow> TextureLoader \<Rightarrow> TextureLoader" where
  "resumeInternal p r s =
     (case find (\<lambda>l. sl_promise l = p) (suspended s) of
        None \<Rightarrow> s
      | Some l \<Rightarrow>
         (let s1 = s\<lparr> suspended := remove1 l (suspended s),
                      resumable := resumable s @ [sl_url l] \<rparr>
          in case r of
               Failed \<Rightarrow> s1\<lparr> failures := failures s1 @ [sl_url l] \<rparr>
             | Decoded imageBitmap \<Rightarrow>
                 s1\<lparr> uploads := uploads s1 @ [(sl_url l, sl_textureIndex l)],
                     loadedTextures := (loadedTextures s1)(sl_url l \<mapsto>
                        \<lparr> textureIndex = sl_textureIndex l, bitmap = imageBitmap \<rparr>),
                     nextTextureIndex := nextTextureIndex s1 + 1 \<rparr>))"

text \<open>The continuation of \<^verbatim>\<open>loadTexture\<close> after \<^verbatim>\<open>await loadingPromise\<close>: both branches
  of its try statement delete the entry of the URL.\<close>

definition resumeLoadTexture :: "url \<Rightarrow> TextureLoader \<Rightarrow> TextureLoader" where
  "resumeLoadTexture u s =
     (if u \<in> set (resumable s)
      then s\<lparr> loadingPromises := (loadingPromises s)(u := None),
              resumable := remove1 u (resumable s) \<rparr>
      else s)"

text \<open>A run of the loader is a sequence of such steps, in any order the event loop may
  choose.\<close>

datatype event =
    Request url
  | Settle promise fetch_result
  | Continue url

fun step :: "TextureLoader \<Rightarrow> event \<Rightarrow> TextureLoader" where
  "step s (Request u) = snd (loadTexture u s)"
| "step s (Settle p r) = resumeInternal p r s"
| "step s (Continue u) = resumeLoadTexture u s"

definition run :: "nat \<Rightarrow> event list \<Rightarrow> TextureLoader" where
  "run n es = foldl step (newTextureLoader n) es"


text \<open>The number of suspended loads of a URL.\<close>

definition inProgress :: "TextureLoader \<Rightarrow> url \<Rightarrow> nat" where
  "inProgress s u = length (filter (\<lambda>l. sl_url l = u) (suspended s))"

text \<open>What the deduplication maintains between the fields and the environment: no URL
  has two suspended loads or two ready continuations, the URLs with a registered promise
  are exactly those with a suspended load or a ready continuation, a suspended load
  is registered under its own promise and belongs to a URL that is not loaded, and the
  counter bounds every index handed out.\<close>

definition loader_inv :: "TextureLoader \<Rightarrow> bool" where
  "loader_inv s \<longleftrightarrow>
     distinct (map sl_url (suspended s)) \<and>
     distinct (resumable s) \<and>
     sl_url ` set (suspended s) \<inter> set (resumable s) = {} \<and>
     sl_url ` set (suspended s) \<union> set (resumable s) = dom (loadingPromises s) \<and>
     sl_url ` set (suspended s) \<inter> dom (loadedTextures s) = {} \<and>
     (\<forall>l \<in> set (suspended s). loadingPromises s (sl_url l) = Some (sl_promise l)) \<and>
     (\<forall>l \<in> set (suspended s). sl_textureIndex l \<le> nextTextureIndex s) \<and>
     (\<forall>u t. loadedTextures s u = Some t \<longrightarrow> textureIndex t < nextTextureIndex s)"

text \<open>The bookkeeping of the traces: a URL has one upload exactly when it is loaded, and
  every fetch either threw, or uploaded, or is still suspended.\<close>

definition loader_counts :: "TextureLoader \<Rightarrow> bool" where
  "loader_counts s \<longleftrightarrow>
     (\<forall>u. count_list (map fst (uploads s)) u = (if u \<in> dom (loadedTextures s) then 1 else 0)) \<and>
     (\<forall>u. count_list (fetches s) u =
            count_list (failures s) u + count_list (map fst (uploads s)) u + inProgress s u)"

text \<open>Runs used as concrete inputs below.\<close>

definition requests_around_a_failure :: "event list" where
  "requests_around_a_failure =
     [Request ''a.png'', Request ''a.png'', Settle 0 Failed, Continue ''a.png'',
      Request ''a.png'', Request ''a.png'', Settle 1 (Decoded (64, 32)), Request ''a.png'',
      Continue ''a.png'', Request ''a.png'']"

definition two_loads :: "event list" where
  "two_loads =
     [Request ''a.png'', Request ''b.png'', Settle 0 (Decoded (64, 32)),
      Continue ''a.png'', Settle 1 (Decoded (16, 16)), Continue ''b.png'']"




section \<open>The compute shader (src/shaders.ts, computeWGSL)\<close>

text \<open>
  The values of type \<^verbatim>\<open>f32\<close> are modelled as real numbers; there is no NaN and no
  infinity.  \<open>main_body\<close> computes with exact arithmetic; the rounding of the operations is
  modelled apart, by \<open>main_body_fl\<close> below.  The values of type \<^verbatim>\<open>u32\<close> are natural
  numbers; those that occur (a particle count, a texture index) are far below \<open>2 ^ 32\<close>.
  A storage buffer bound as a runtime-sized array is a function from the element index
  to the element.
\<close>

type_synonym vec2 = "real \<times> real"

record DynamicParticle =
  pos :: vec2
  vel :: vec2
  rotation :: real
  padding :: real

record StaticParticle =
  scale :: real
  aspectRatio :: real
  angularVel :: real
  texIndex :: nat
  uvScale :: vec2
  s_padding :: vec2

record Uniforms =
  u_deltaTime :: real
  u_particleCount :: nat
  u_aspectRatio :: real
  u_padding :: real

type_synonym DynamicParticles = "nat \<Rightarrow> DynamicParticle"

type_synonym StaticParticles = "nat \<Rightarrow> StaticParticle"

definition WORKGROUP_SIZE :: nat where
  "WORKGROUP_SIZE = 64"

text \<open>The body of \<^verbatim>\<open>main\<close> after its guard: the element it stores at \<^verbatim>\<open>index\<close>, from the
  elements it loaded there.\<close>

definition main_body :: "Uniforms \<Rightarrow> DynamicParticle \<Rightarrow> StaticParticle \<Rightarrow> DynamicParticle" where
  "main_body uniforms d_in s =
     (let pos0 = (fst (pos d_in) + fst (vel d_in) * u_deltaTime uniforms,
                  snd (pos d_in) + snd (vel d_in) * u_deltaTime uniforms);
          vel0 = vel d_in;
          rotation' = rotation d_in + angularVel s * u_deltaTime uniforms;
          half_height = scale s * 0.5;
          half_width = half_height * aspectRatio s;
          bound_x = u_aspectRatio uniforms;
          bound_y = 1;
          (pos_x, vel_x) =
             (if fst pos0 - half_width < - bound_x then (- bound_x + half_width, \<bar>fst vel0\<bar>)
              else if fst pos0 + half_width > bound_x then (bound_x - half_width, - \<bar>fst vel0\<bar>)
              else (fst pos0, fst vel0));
          (pos_y, vel_y) =
             (if snd pos0 - half_height < - bound_y then (- bound_y + half_height, \<bar>snd vel0\<bar>)
              else if snd pos0 + half_height > bound_y then (bound_y - half_height, - \<bar>snd vel0\<bar>)
              else (snd pos0, snd vel0))
      in \<lparr> pos = (pos_x, pos_y), vel = (vel_x, vel_y), rotation = rotation', padding = 0 \<rparr>)"

text \<open>One invocation of the entry point, for \<^verbatim>\<open>global_id.x = index\<close>.  Its result is the
  content of the buffer bound as \<^verbatim>\<open>dynamic_out\<close>.\<close>

definition main ::
  "DynamicParticles \<Rightarrow> StaticParticles \<Rightarrow> Uniforms \<Rightarrow> nat \<Rightarrow> DynamicParticles \<Rightarrow> DynamicParticles" where
  "main dynamic_in static_data uniforms index dynamic_out =
     (if index \<ge> u_particleCount uniforms then dynamic_out
      else dynamic_out(index := main_body uniforms (dynamic_in index) (static_data index)))"

text \<open>A dispatch of \<open>n\<close> workgroups runs the invocations \<open>0 .. n * 64 - 1\<close>.  Each one
  stores at its own index only and loads from other bindings only, so running them one
  after the other gives what running them in parallel gives.\<close>

definition dispatchWorkgroups ::
  "nat \<Rightarrow> DynamicParticles \<Rightarrow> StaticParticles \<Rightarrow> Uniforms \<Rightarrow> DynamicParticles \<Rightarrow> DynamicParticles" where
  "dispatchWorkgroups n dynamic_in static_data uniforms dynamic_out =
     fold (main dynamic_in static_data uniforms) [0 ..< n * WORKGROUP_SIZE] dynamic_out"

text \<open>The branches of the boundary test, as the shader evaluates them on the integrated
  position.\<close>

definition clamps_left :: "Uniforms \<Rightarrow> DynamicParticle \<Rightarrow> StaticParticle \<Rightarrow> bool" where
  "clamps_left uniforms d_in s \<longleftrightarrow>
     fst (pos d_in) + fst (vel d_in) * u_deltaTime uniforms - scale s * 0.5 * aspectRatio s
       < - u_aspectRatio uniforms"

definition clamps_right :: "Uniforms \<Rightarrow> DynamicParticle \<Rightarrow> StaticParticle \<Rightarrow> bool" where
  "clamps_right uniforms d_in s \<longleftrightarrow>
     \<not> clamps_left uniforms d_in s \<and>
     fst (pos d_in) + fst (vel d_in) * u_deltaTime uniforms + scale s * 0.5 * aspectRatio s
       > u_aspectRatio uniforms"

definition clamps_bottom :: "Uniforms \<Rightarrow> DynamicParticle \<Rightarrow> StaticParticle \<Rightarrow> bool" where
  "clamps_bottom uniforms d_in s \<longleftrightarrow>
     snd (pos d_in) + snd (vel d_in) * u_deltaTime uniforms - scale s * 0.5 < - 1"

definition clamps_top :: "Uniforms \<Rightarrow> DynamicParticle \<Rightarrow> StaticParticle \<Rightarrow> bool" where
  "clamps_top uniforms d_in s \<longleftrightarrow>
     \<not> clamps_bottom uniforms d_in s \<and>
     snd (pos d_in) + snd (vel d_in) * u_deltaTime uniforms + scale s * 0.5 > 1"


text \<open>A particle fits the viewport when its half-extent does not exceed the bounds, and
  lies inside the viewport when its position keeps its whole extent within the bounds.\<close>

definition fits_viewport :: "real \<Rightarrow> StaticParticle \<Rightarrow> bool" where
  "fits_viewport canvasAspectRatio s \<longleftrightarrow>
     scale s * 0.5 * aspectRatio s \<le> canvasAspectRatio \<and> scale s * 0.5 \<le> 1"

definition inside_viewport :: "real \<Rightarrow> StaticParticle \<Rightarrow> DynamicParticle \<Rightarrow> bool" where
  "inside_viewport canvasAspectRatio s d \<longleftrightarrow>
     - canvasAspectRatio + scale s * 0.5 * aspectRatio s \<le> fst (pos d) \<and>
     fst (pos d) \<le> canvasAspectRatio - scale s * 0.5 * aspectRatio s \<and>
     - 1 + scale s * 0.5 \<le> snd (pos d) \<and>
     snd (pos d) \<le> 1 - scale s * 0.5"

text \<open>Concrete inputs: a viewport of half-width 0.5 with a step of one second, a square
  particle of half-extent 0.1, and a particle at the origin with a given velocity.\<close>

definition viewport :: Uniforms where
  "viewport = \<lparr> u_deltaTime = 1, u_particleCount = 1, u_aspectRatio = 0.5, u_padding = 0 \<rparr>"

definition small_square :: StaticParticle where
  "small_square = \<lparr> scale = 0.2, aspectRatio = 1, angularVel = 0, texIndex = 0,
     uvScale = (1, 1), s_padding = (0, 0) \<rparr>"

definition moving :: "vec2 \<Rightarrow> DynamicParticle" where
  "moving v = \<lparr> pos = (0, 0), vel = v, rotation = 0, padding = 0 \<rparr>"


text \<open>
  Rounding.  The shader computes in \<^verbatim>\<open>f32\<close>: every arithmetic operation returns a number of
  the format, near the exact result.  \<open>main_body_fl\<close> is the body of \<^verbatim>\<open>main\<close> with the result
  of every addition, subtraction and multiplication passed through a rounding function;
  negation, the absolute value and the comparisons are exact.  With the identity as
  rounding function it is \<open>main_body\<close>.  (An implementation may fuse the multiplication and
  the addition of the integration into one rounding; no statement below depends on how
  the integrated position is rounded.)
\<close>

definition main_body_fl ::
  "(real \<Rightarrow> real) \<Rightarrow> Uniforms \<Rightarrow> DynamicParticle \<Rightarrow> StaticParticle \<Rightarrow> DynamicParticle" where
  "main_body_fl fl uniforms d_in s =
     (let pos0 = (fl (fst (pos d_in) + fl (fst (vel d_in) * u_deltaTime uniforms)),
                  fl (snd (pos d_in) + fl (snd (vel d_in) * u_deltaTime uniforms)));
          vel0 = vel d_in;
          rotation' = fl (rotation d_in + fl (angularVel s * u_deltaTime uniforms));
          half_height = fl (scale s * 0.5);
          half_width = fl (half_height * aspectRatio s);
          bound_x = u_aspectRatio uniforms;
          bound_y = 1;
          (pos_x, vel_x) =
             (if fl (fst pos0 - half_width) < - bound_x
              then (fl (- bound_x + half_width), \<bar>fst vel0\<bar>)
              else if fl (fst pos0 + half_width) > bound_x
              then (fl (bound_x - half_width), - \<bar>fst vel0\<bar>)
              else (fst pos0, fst vel0));
          (pos_y, vel_y) =
             (if fl (snd pos0 - half_height) < - bound_y
              then (fl (- bound_y + half_height), \<bar>snd vel0\<bar>)
              else if fl (snd pos0 + half_height) > bound_y
              then (fl (bound_y - half_height), - \<bar>snd vel0\<bar>)
              else (snd pos0, snd vel0))
      in \<lparr> pos = (pos_x, pos_y), vel = (vel_x, vel_y), rotation = rotation', padding = 0 \<rparr>)"

text \<open>\<open>f32\<close> rounds to the nearest number with a significand of 24 bits, ties to the even
  significand, as the hardware does; the exponent is not bounded, so overflow and
  subnormal numbers are not modelled.\<close>

definition round_even :: "real \<Rightarrow> int" where
  "round_even q =
     (let f = \<lfloor>q\<rfloor>; r = q - of_int f
      in if r < 1 / 2 then f else if r > 1 / 2 then f + 1 else if even f then f else f + 1)"

definition f32 :: "real \<Rightarrow> real" where
  "f32 x =
     (if x = 0 then 0
      else (let ulp = 2 powr (of_int \<lfloor>log 2 \<bar>x\<bar>\<rfloor> - 23)
            in of_int (round_even (x / ulp)) * ulp))"

text \<open>A coordinate \<open>p\<close> is inside the bounds shrunk by \<open>half\<close> up to a relative error \<open>u\<close>
  of the values that were rounded.  For \<open>u = 0\<close> it is inside the shrunk bounds.\<close>

definition near_inside :: "real \<Rightarrow> real \<Rightarrow> real \<Rightarrow> real \<Rightarrow> bool" where
  "near_inside u bound half p \<longleftrightarrow>
     - bound + half - u * (\<bar>bound - half\<bar> + \<bar>p - half\<bar>) \<le> p \<and>
     p \<le> bound - half + u * (\<bar>bound - half\<bar> + \<bar>p + half\<bar>)"

text \<open>Concrete inputs: a square viewport with a step of 1/16 s, a square particle with
  the scale of the application (0.3 as stored in a \<^verbatim>\<open>Float32Array\<close>), and a particle that
  rises towards the top edge.\<close>

definition square_viewport :: Uniforms where
  "square_viewport =
     \<lparr> u_deltaTime = 1 / 16, u_particleCount = 1, u_aspectRatio = 1, u_padding = 0 \<rparr>"

definition app_square :: StaticParticle where
  "app_square = \<lparr> scale = 10066330 / 2 ^ 25, aspectRatio = 1, angularVel = 0, texIndex = 0,
     uvScale = (1, 1), s_padding = (0, 0) \<rparr>"

definition rising :: DynamicParticle where
  "rising = \<lparr> pos = (0, 13 / 16), vel = (0, 3 / 4), rotation = 0, padding = 0 \<rparr>"


section \<open>The renderer (src/renderer.ts)\<close>

definition MAX_PARTICLES :: nat where
  "MAX_PARTICLES = 10000"

definition TEXTURE_SIZE :: nat where
  "TEXTURE_SIZE = 1024"

definition DYNAMIC_PARTICLE_STRIDE :: nat where
  "DYNAMIC_PARTICLE_STRIDE = 24"

definition STATIC_PARTICLE_STRIDE :: nat where
  "STATIC_PARTICLE_STRIDE = 32"

text \<open>The fields of \<^verbatim>\<open>WebGPURenderer\<close> that the buffers and the passes depend on.  The pair
  \<^verbatim>\<open>dynamicBuffers\<close> is indexed by 0 and 1.  The console holds the errors that
  \<^verbatim>\<open>addParticle\<close> logs, and \<open>buttonText\<close> the count shown on the button.  The FPS
  overlay and the clear colour are left out.\<close>

datatype error = TextureArrayIsFull | LoadFailure url

record WebGPURenderer =
  dynamicBuffers :: "nat \<Rightarrow> DynamicParticles"
  staticBuffer :: StaticParticles
  uniformsBuffer :: Uniforms
  particleCount :: nat
  frame :: nat
  lastTime :: real
  console :: "error list"
  buttonText :: nat

text \<open>The compute bind group layout has four bindings: 0 (\<^verbatim>\<open>dynamic_in\<close>, read-only
  storage), 1 (\<^verbatim>\<open>dynamic_out\<close>, storage), 2 (\<^verbatim>\<open>static_data\<close>, read-only storage) and 3
  (uniform).  Both bind groups bind \<^verbatim>\<open>staticBuffer\<close> at 2 and \<^verbatim>\<open>uniformsBuffer\<close> at 3; a
  bind group of the model names the elements of \<^verbatim>\<open>dynamicBuffers\<close> bound at 0 and 1.\<close>

record BindGroup =
  binding0 :: nat
  binding1 :: nat

definition computeBindGroups :: "BindGroup list" where
  "computeBindGroups =
     [\<lparr> binding0 = 0, binding1 = 1 \<rparr>,
      \<lparr> binding0 = 1, binding1 = 0 \<rparr>]"

text \<open>The commands of a frame: a compute pass with its bind group and its number of
  workgroups, and the render pass, which draws from an element of \<^verbatim>\<open>dynamicBuffers\<close>
  (vertex buffer 0) a number of instances, or only clears.\<close>

datatype command =
    ComputePass BindGroup nat
  | RenderPass "(nat \<times> nat) option"

text \<open>Executing a compute pass: the shader loads from bindings 0, 2 and 3 and stores
  to binding 1.  A render pass writes to the canvas only.\<close>

fun execute :: "command \<Rightarrow> WebGPURenderer \<Rightarrow> WebGPURenderer" where
  "execute (ComputePass bg n) st =
     st\<lparr> dynamicBuffers := (dynamicBuffers st)(binding1 bg :=
            dispatchWorkgroups n (dynamicBuffers st (binding0 bg)) (staticBuffer st)
              (uniformsBuffer st) (dynamicBuffers st (binding1 bg))) \<rparr>"
| "execute (RenderPass d) st = st"

definition submit :: "command list \<Rightarrow> WebGPURenderer \<Rightarrow> WebGPURenderer" where
  "submit cs st = fold execute cs st"

text \<open>The commands \<^verbatim>\<open>renderLoop\<close> encodes.\<close>

definition encodeFrame :: "WebGPURenderer \<Rightarrow> command list" where
  "encodeFrame st =
     (if particleCount st > 0
      then [ComputePass (computeBindGroups ! (frame st mod 2))
              (nat \<lceil>real (particleCount st) / real WORKGROUP_SIZE\<rceil>)]
      else [])
     @ [RenderPass (if particleCount st > 0
                    then Some ((frame st + 1) mod 2, particleCount st) else None)]"

text \<open>One frame.  The arguments are what the frame reads from the browser:
  \<^verbatim>\<open>performance.now()\<close> and the client size of the canvas (its height is taken to be
  positive).\<close>

definition renderLoop :: "real \<Rightarrow> real \<Rightarrow> real \<Rightarrow> WebGPURenderer \<Rightarrow> WebGPURenderer" where
  "renderLoop now clientWidth clientHeight st =
     (let deltaTime = (if lastTime st > 0 then min 0.1 ((now - lastTime st) / 1000.0) else 0.016);
          st1 = st\<lparr> lastTime := now \<rparr>;
          uniformsData = \<lparr> u_deltaTime = deltaTime, u_particleCount = particleCount st1,
                           u_aspectRatio = clientWidth / clientHeight, u_padding = 0 \<rparr>;
          st2 = st1\<lparr> uniformsBuffer := uniformsData \<rparr>;
          st3 = submit (encodeFrame st2) st2
      in st3\<lparr> frame := frame st3 + 1 \<rparr>)"

text \<open>Any number of frames, one after the other.\<close>

definition renderFrames :: "(real \<times> real \<times> real) list \<Rightarrow> WebGPURenderer \<Rightarrow> WebGPURenderer" where
  "renderFrames fs st = fold (\<lambda>(now, clientWidth, clientHeight). renderLoop now clientWidth clientHeight) fs st"

text \<open>\<^verbatim>\<open>queue.writeBuffer\<close> of one element at a byte offset into a buffer of \<^verbatim>\<open>MAX_PARTICLES\<close>
  elements.  A write that does not fit the buffer is a validation error of WebGPU: it is
  dropped, and no exception is thrown.\<close>

definition writeBuffer :: "nat \<Rightarrow> (nat \<Rightarrow> 'a) \<Rightarrow> nat \<Rightarrow> 'a \<Rightarrow> (nat \<Rightarrow> 'a)" where
  "writeBuffer stride buffer bufferOffset data =
     (if bufferOffset + stride \<le> MAX_PARTICLES * stride
      then buffer(bufferOffset div stride := data) else buffer)"

text \<open>One iteration of the loop of \<^verbatim>\<open>addParticle\<close>, from the point where
  \<^verbatim>\<open>await this.textureLoader.loadTexture(url)\<close> has settled: with what it settled, and the
  three values of \<^verbatim>\<open>Math.random()\<close> the iteration draws.\<close>

record iteration =
  awaited :: "error + LoadedTexture"
  random_velSpeed :: real
  random_velAngle :: real
  random_angularVel :: real

text \<open>How a block of statements ends: it runs to its end, or it throws.\<close>

datatype completion = Returns | Throws error

text \<open>The try block of an iteration.  A rejected texture load throws at the await, before
  the block has written anything; otherwise the block writes the particle and counts it.\<close>

definition addParticle_try :: "iteration \<Rightarrow> WebGPURenderer \<Rightarrow> completion \<times> WebGPURenderer" where
  "addParticle_try it st =
     (case awaited it of
        Inl e \<Rightarrow> (Throws e, st)
      | Inr texture \<Rightarrow>
         (let velSpeed = (random_velSpeed it + 1) * 0.5;
              velAngle = random_velAngle it * 2 * pi;
              dynamicData = \<lparr> pos = (0, 0),
                              vel = (cos velAngle * velSpeed, sin velAngle * velSpeed),
                              rotation = 0, padding = 0 \<rparr>;
              staticData = \<lparr> scale = 0.3,
                             aspectRatio = real (fst (bitmap texture)) / real (snd (bitmap texture)),
                             angularVel = (random_angularVel it - 0.5) * 5.0,
                             texIndex = textureIndex texture,
                             uvScale = (real (fst (bitmap texture)) / real TEXTURE_SIZE,
                                        real (snd (bitmap texture)) / real TEXTURE_SIZE),
                             s_padding = (0, 0) \<rparr>;
              st1 = st\<lparr> dynamicBuffers := (dynamicBuffers st)(0 :=
                          writeBuffer DYNAMIC_PARTICLE_STRIDE (dynamicBuffers st 0)
                            (particleCount st * DYNAMIC_PARTICLE_STRIDE) dynamicData) \<rparr>;
              st2 = st1\<lparr> dynamicBuffers := (dynamicBuffers st1)(1 :=
                          writeBuffer DYNAMIC_PARTICLE_STRIDE (dynamicBuffers st1 1)
                            (particleCount st1 * DYNAMIC_PARTICLE_STRIDE) dynamicData) \<rparr>;
              st3 = st2\<lparr> staticBuffer :=
                          writeBuffer STATIC_PARTICLE_STRIDE (staticBuffer st2)
                            (particleCount st2 * STATIC_PARTICLE_STRIDE) staticData \<rparr>;
              st4 = st3\<lparr> particleCount := particleCount st3 + 1 \<rparr>
          in (Returns, st4\<lparr> buttonText := particleCount st4 \<rparr>)))"

text \<open>The catch block: \<^verbatim>\<open>console.error('Failed to add particle:', error)\<close>.\<close>

definition addParticle_catch :: "error \<Rightarrow> WebGPURenderer \<Rightarrow> completion \<times> WebGPURenderer" where
  "addParticle_catch e st = (Returns, st\<lparr> console := console st @ [e] \<rparr>)"

text \<open>The try statement: what the try block throws, the catch block handles.\<close>

definition addParticle_attempt :: "iteration \<Rightarrow> WebGPURenderer \<Rightarrow> completion \<times> WebGPURenderer" where
  "addParticle_attempt it st =
     (case addParticle_try it st of
        (Throws e, st') \<Rightarrow> addParticle_catch e st'
      | (Returns, st') \<Rightarrow> (Returns, st'))"

text \<open>The renderer after one iteration.\<close>

definition addParticle_iteration :: "iteration \<Rightarrow> WebGPURenderer \<Rightarrow> WebGPURenderer" where
  "addParticle_iteration it st = snd (addParticle_attempt it st)"

text \<open>The loop over the iterations of a batch.  An exception that left the try statement
  of an iteration would end the loop and leave the function.\<close>

fun addParticle_loop :: "iteration list \<Rightarrow> WebGPURenderer \<Rightarrow> completion \<times> WebGPURenderer" where
  "addParticle_loop [] st = (Returns, st)"
| "addParticle_loop (it # its) st =
     (case addParticle_attempt it st of
        (Throws e, st') \<Rightarrow> (Throws e, st')
      | (Returns, st') \<Rightarrow> addParticle_loop its st')"

text \<open>How the promise returned by an \<^verbatim>\<open>async\<close> function settles: it fulfils when the body
  returns, and it rejects with what the body throws.\<close>

datatype settled = Fulfilled | RejectedWith error

fun settle :: "completion \<Rightarrow> settled" where
  "settle Returns = Fulfilled"
| "settle (Throws e) = RejectedWith e"

text \<open>A call of \<^verbatim>\<open>addParticle\<close>: the guard, the size of the batch
  (\<^verbatim>\<open>Math.round(Math.random() * 3 + 2.5)\<close>, where \<^verbatim>\<open>Math.round\<close> rounds halves up), and the
  iterations in their order.  Between two iterations other calls and frames may run;
  each iteration is atomic.\<close>

definition addParticle :: "real \<Rightarrow> (nat \<Rightarrow> iteration) \<Rightarrow> WebGPURenderer \<Rightarrow> settled \<times> WebGPURenderer" where
  "addParticle random_cnt its st =
     (if particleCount st \<ge> MAX_PARTICLES then (settle Returns, st)
      else
        (let cnt = nat \<lfloor>random_cnt * 3 + 2.5 + 1 / 2\<rfloor>;
             (c, st') = addParticle_loop (map its [0 ..< cnt]) st
         in (settle c, st')))"

text \<open>The renderer after \<^verbatim>\<open>createAssets\<close>: fresh buffers are zero-filled.\<close>

definition newRenderer :: WebGPURenderer where
  "newRenderer =
     \<lparr> dynamicBuffers = (\<lambda>_ _. \<lparr> pos = (0, 0), vel = (0, 0), rotation = 0, padding = 0 \<rparr>),
       staticBuffer = (\<lambda>_. \<lparr> scale = 0, aspectRatio = 0, angularVel = 0, texIndex = 0,
                             uvScale = (0, 0), s_padding = (0, 0) \<rparr>),
       uniformsBuffer = \<lparr> u_deltaTime = 0, u_particleCount = 0, u_aspectRatio = 0, u_padding = 0 \<rparr>,
       particleCount = 0, frame = 0, lastTime = 0, console = [], buttonText = 0 \<rparr>"


text \<open>Concrete inputs: a renderer with one live particle, an iteration whose texture
  resolved and one whose texture load was rejected, and \<open>k\<close> calls of \<^verbatim>\<open>addParticle\<close> one
  after the other, each with a batch of three whose textures all resolve.\<close>

definition one_fast_particle :: WebGPURenderer where
  "one_fast_particle =
     newRenderer\<lparr> dynamicBuffers := (\<lambda>_ _. moving (9, 20)), staticBuffer := (\<lambda>_. small_square),
       particleCount := 1, lastTime := 1000 \<rparr>"

definition resolved_iteration :: iteration where
  "resolved_iteration =
     \<lparr> awaited = Inr \<lparr> textureIndex = 3, bitmap = (512, 256) \<rparr>,
       random_velSpeed = 0.5, random_velAngle = 0, random_angularVel = 0.5 \<rparr>"

definition rejected_iteration :: iteration where
  "rejected_iteration =
     \<lparr> awaited = Inl (LoadFailure ''a.png''),
       random_velSpeed = 0.5, random_velAngle = 0, random_angularVel = 0.5 \<rparr>"

definition addParticle_calls :: "nat \<Rightarrow> WebGPURenderer \<Rightarrow> WebGPURenderer" where
  "addParticle_calls k = (\<lambda>st. snd (addParticle 0 (\<lambda>_. resolved_iteration) st)) ^^ k"


section \<open>Properties of the texture loader\<close>

lemma run_snoc: "run n (es @ [e]) = step (run n es) e"
  by (simp add: run_def)

lemmas loader_defs =
  run_def loadTexture_def loadTextureInternal_def resumeInternal_def
  resumeLoadTexture_def newTextureLoader_def Let_def

subsection \<open>The invariant holds in every run\<close>

lemma find_SomeD: "find P xs = Some x \<Longrightarrow> P x \<and> x \<in> set xs"
  by (induction xs) (auto split: if_splits)

lemma distinct_map_remove1: "distinct (map f xs) \<Longrightarrow> distinct (map f (remove1 x xs))"
  by (auto simp: distinct_map intro: inj_on_diff)

lemma image_remove1:
  "distinct (map f xs) \<Longrightarrow> x \<in> set xs \<Longrightarrow> f ` set (remove1 x xs) = f ` set xs - {f x}"
  by (induction xs) (auto simp: image_iff)

lemma length_filter_remove1:
  "x \<in> set xs \<Longrightarrow>
     length (filter P xs) = length (filter P (remove1 x xs)) + (if P x then 1 else 0)"
  by (induction xs) auto

lemma length_filter_distinct:
  "distinct (map f xs) \<Longrightarrow> length (filter (\<lambda>l. f l = u) xs) \<le> 1"
  by (induction xs) (auto simp: filter_empty_conv image_iff)

lemma inv_new: "loader_inv (newTextureLoader n)"
  by (simp add: loader_inv_def newTextureLoader_def)

lemma inv_loadTexture: "loader_inv s \<Longrightarrow> loader_inv (snd (loadTexture u s))"
  unfolding loader_inv_def loadTexture_def loadTextureInternal_def
  by (auto simp: Let_def split: option.splits)

lemma inv_resumeInternal:
  assumes inv: "loader_inv s"
  shows "loader_inv (resumeInternal p r s)"
proof (cases "find (\<lambda>l. sl_promise l = p) (suspended s)")
  case None
  then show ?thesis using inv by (simp add: resumeInternal_def)
next
  case (Some l)
  then have l: "l \<in> set (suspended s)" by (auto dest: find_SomeD)
  from inv have d: "distinct (map sl_url (suspended s))" by (simp add: loader_inv_def)
  note d' = distinct_map_remove1 [OF d, of l]
  note im = image_remove1 [OF d l]
  have sub: "set (remove1 l (suspended s)) \<subseteq> set (suspended s)"
    by (rule set_remove1_subset)
  show ?thesis
  proof (cases r)
    case Failed
    with Some inv l d' sub show ?thesis
      unfolding loader_inv_def resumeInternal_def
      by (auto simp: Let_def im)
  next
    case (Decoded bmp)
    with Some inv l d' sub show ?thesis
      unfolding loader_inv_def resumeInternal_def
      by (auto simp: Let_def im intro: le_SucI less_SucI)
  qed
qed

lemma inv_resumeLoadTexture:
  assumes inv: "loader_inv s"
  shows "loader_inv (resumeLoadTexture u s)"
proof (cases "u \<in> set (resumable s)")
  case False
  then show ?thesis using inv by (simp add: resumeLoadTexture_def)
next
  case True
  from inv have d: "distinct (resumable s)" by (simp add: loader_inv_def)
  then have s: "set (remove1 u (resumable s)) = set (resumable s) - {u}" by simp
  from True inv d s show ?thesis
    unfolding loader_inv_def resumeLoadTexture_def
    by (auto simp: Let_def)
qed

lemma counts_new: "loader_counts (newTextureLoader n)"
  by (simp add: loader_counts_def newTextureLoader_def inProgress_def)

lemma counts_loadTexture: "loader_counts s \<Longrightarrow> loader_counts (snd (loadTexture u s))"
  unfolding loader_counts_def loadTexture_def loadTextureInternal_def inProgress_def
  by (auto simp: Let_def split: option.splits)

lemma counts_resumeInternal:
  assumes inv: "loader_inv s" and c: "loader_counts s"
  shows "loader_counts (resumeInternal p r s)"
proof (cases "find (\<lambda>l. sl_promise l = p) (suspended s)")
  case None
  then show ?thesis using c by (simp add: resumeInternal_def)
next
  case (Some l)
  then have l: "l \<in> set (suspended s)" by (auto dest: find_SomeD)
  from inv l have nl: "sl_url l \<notin> dom (loadedTextures s)"
    unfolding loader_inv_def by blast
  have len: "length (filter (\<lambda>k. sl_url k = u) (suspended s)) =
      length (filter (\<lambda>k. sl_url k = u) (remove1 l (suspended s)))
        + (if sl_url l = u then 1 else 0)" for u
    using length_filter_remove1 [OF l] .
  show ?thesis
  proof (cases r)
    case Failed
    with Some c show ?thesis
      unfolding loader_counts_def resumeInternal_def inProgress_def
      by (auto simp: Let_def len)
  next
    case (Decoded bmp)
    with Some c nl show ?thesis
      unfolding loader_counts_def resumeInternal_def inProgress_def
      by (auto simp: Let_def len)
  qed
qed

lemma counts_resumeLoadTexture: "loader_counts s \<Longrightarrow> loader_counts (resumeLoadTexture u s)"
  unfolding loader_counts_def resumeLoadTexture_def inProgress_def
  by auto

lemma inv_step: "loader_inv s \<Longrightarrow> loader_inv (step s e)"
  by (cases e) (simp_all add: inv_loadTexture inv_resumeInternal inv_resumeLoadTexture)

lemma counts_step: "loader_inv s \<Longrightarrow> loader_counts s \<Longrightarrow> loader_counts (step s e)"
  by (cases e) (simp_all add: counts_loadTexture counts_resumeInternal counts_resumeLoadTexture)

lemma inv_run: "loader_inv (run n es) \<and> loader_counts (run n es)"
proof (induction es rule: rev_induct)
  case Nil
  show ?case by (simp add: run_def inv_new counts_new)
next
  case (snoc e es)
  then show ?case by (simp add: run_snoc inv_step counts_step)
qed

lemma inProgress_le1: "loader_inv s \<Longrightarrow> inProgress s u \<le> 1"
  using length_filter_distinct [of sl_url "suspended s" u]
  by (simp add: loader_inv_def inProgress_def)

lemma loadTexture_joins:
  assumes "loader_inv s" "l \<in> set (suspended s)"
  shows "loadTexture (sl_url l) s = (Joined (sl_promise l), s)"
proof -
  from assms have "loadedTextures s (sl_url l) = None"
    unfolding loader_inv_def by blast
  moreover from assms have "loadingPromises s (sl_url l) = Some (sl_promise l)"
    unfolding loader_inv_def by blast
  ultimately show ?thesis by (simp add: loadTexture_def)
qed

subsection \<open>Deduplication\<close>

text \<open>
  Claim C1.  After any sequence of requests, settled loads and continuations, in any
  order: a URL has at most one load in progress; a call of \<open>loadTexture\<close> for a URL with a
  load in progress hands back the promise of that very load and leaves the state as it
  is, so it starts no fetch; a call for a loaded URL hands back the cached texture, and
  no load of that URL is in progress any more; a URL has exactly one upload when it is
  loaded and none otherwise; and every fetch of a URL is accounted for: it threw (after
  which the URL may be requested again), or it is the one that uploaded, or it is the
  one in progress.
\<close>

theorem loadTexture_dedup:
  fixes n :: nat and es :: "event list" and u :: url
  defines "s \<equiv> run n es"
  shows "inProgress s u \<le> 1
    \<and> (\<forall>l \<in> set (suspended s). loadTexture (sl_url l) s = (Joined (sl_promise l), s))
    \<and> (\<forall>t. loadedTextures s u = Some t \<longrightarrow>
          loadTexture u s = (Cached t, s) \<and> inProgress s u = 0)
    \<and> count_list (map fst (uploads s)) u = (if u \<in> dom (loadedTextures s) then 1 else 0)
    \<and> count_list (fetches s) u =
        count_list (failures s) u + count_list (map fst (uploads s)) u + inProgress s u"
proof -
  have inv: "loader_inv s" and c: "loader_counts s"
    using inv_run [of n es] by (simp_all add: s_def)
  have "inProgress s u = 0" if "loadedTextures s u = Some t" for t
  proof -
    from inv that have "u \<notin> sl_url ` set (suspended s)"
      unfolding loader_inv_def by blast
    then have "filter (\<lambda>l. sl_url l = u) (suspended s) = []"
      by (auto simp: filter_empty_conv)
    then show ?thesis by (simp add: inProgress_def)
  qed
  moreover have "loadTexture u s = (Cached t, s)" if "loadedTextures s u = Some t" for t
    using that by (simp add: loadTexture_def)
  ultimately show ?thesis
    using inProgress_le1 [OF inv, of u] loadTexture_joins [OF inv] c
    unfolding loader_counts_def by blast
qed

theorem loadTexture_dedup_witness:
  "(let s = run 9 requests_around_a_failure in
      inProgress s ''a.png'' \<le> 1
      \<and> loadTexture ''a.png'' s = (Cached \<lparr>textureIndex = 0, bitmap = (64, 32)\<rparr>, s)
      \<and> count_list (map fst (uploads s)) ''a.png'' = 1
      \<and> count_list (fetches s) ''a.png'' = 2 \<and> count_list (failures s) ''a.png'' = 1)
   \<and> (let s = run 9 (take 6 requests_around_a_failure) in
        inProgress s ''a.png'' = 1 \<and> loadTexture ''a.png'' s = (Joined 1, s))"
proof -
  have a: "loadedTextures (run 9 requests_around_a_failure) ''a.png'' =
      Some \<lparr>textureIndex = 0, bitmap = (64, 32)\<rparr>"
    by (simp add: requests_around_a_failure_def loader_defs)
  have b: "suspended (run 9 (take 6 requests_around_a_failure)) =
      [\<lparr>sl_promise = 1, sl_url = ''a.png'', sl_textureIndex = 0\<rparr>]"
    by (simp add: requests_around_a_failure_def loader_defs)
  have c: "failures (run 9 requests_around_a_failure) = [''a.png'']"
    by (simp add: requests_around_a_failure_def loader_defs)
  from loadTexture_dedup [of 9 requests_around_a_failure "''a.png''"]
       loadTexture_dedup [of 9 "take 6 requests_around_a_failure" "''a.png''"] a b c
  show ?thesis by (simp add: Let_def inProgress_def domIff)
qed

subsection \<open>Two loads started together\<close>

text \<open>
  Claim C2.  Two different URLs are requested before either load has settled
  (\<open>two_loads\<close>), and both loads succeed.  Both invocations of \<^verbatim>\<open>_loadTextureInternal\<close>
  read the counter before it has moved: both URLs are recorded with \<open>textureIndex\<close> 0,
  both images are copied to layer 0 of the texture array, and the counter ends at 2.
\<close>

theorem concurrent_loads_share_slot:
  "loadedTextures (run 9 two_loads) ''a.png'' = Some \<lparr>textureIndex = 0, bitmap = (64, 32)\<rparr>
   \<and> loadedTextures (run 9 two_loads) ''b.png'' = Some \<lparr>textureIndex = 0, bitmap = (16, 16)\<rparr>
   \<and> uploads (run 9 two_loads) = [(''a.png'', 0), (''b.png'', 0)]
   \<and> nextTextureIndex (run 9 two_loads) = 2"
  by (simp add: two_loads_def loader_defs)

subsection \<open>The counter of slot indices\<close>







section \<open>Properties of the compute shader and the renderer\<close>

subsection \<open>What a dispatch and a frame compute\<close>

lemma fold_main:
  "fold (main dynamic_in static_data uniforms) [0 ..< m] dynamic_out i =
     (if i < m \<and> i < u_particleCount uniforms
      then main_body uniforms (dynamic_in i) (static_data i) else dynamic_out i)"
  by (induction m) (auto simp: main_def)

lemma dispatchWorkgroups_index:
  "dispatchWorkgroups n dynamic_in static_data uniforms dynamic_out i =
     (if i < n * WORKGROUP_SIZE \<and> i < u_particleCount uniforms
      then main_body uniforms (dynamic_in i) (static_data i) else dynamic_out i)"
  by (simp add: dispatchWorkgroups_def fold_main)

lemma workgroups_cover: "n \<le> nat \<lceil>real n / real WORKGROUP_SIZE\<rceil> * WORKGROUP_SIZE"
proof -
  have 1: "real n \<le> of_int \<lceil>real n / 64\<rceil> * 64"
    using le_of_int_ceiling [of "real n / 64"] by linarith
  have "0 \<le> \<lceil>real n / 64\<rceil>" by simp
  then have 2: "of_int \<lceil>real n / 64\<rceil> = real (nat \<lceil>real n / 64\<rceil>)" by simp
  from 1 have "real n \<le> real (nat \<lceil>real n / 64\<rceil> * 64)"
    unfolding 2 by simp
  then have "n \<le> nat \<lceil>real n / 64\<rceil> * 64"
    by (simp only: of_nat_le_iff)
  then show ?thesis by (simp add: WORKGROUP_SIZE_def)
qed

lemma computeBindGroups_nth:
  "computeBindGroups ! (N mod 2) = \<lparr> binding0 = N mod 2, binding1 = (N + 1) mod 2 \<rparr>"
proof (cases "N mod 2 = 0")
  case True
  then have "(N + 1) mod 2 = 1" by presburger
  with True show ?thesis by (simp add: computeBindGroups_def)
next
  case False
  then have "N mod 2 = 1" "(N + 1) mod 2 = 0" by presburger+
  then show ?thesis by (simp add: computeBindGroups_def)
qed

lemma encodeFrame_eq:
  "encodeFrame st =
     (if particleCount st > 0
      then [ComputePass \<lparr> binding0 = frame st mod 2, binding1 = (frame st + 1) mod 2 \<rparr>
              (nat \<lceil>real (particleCount st) / real WORKGROUP_SIZE\<rceil>),
            RenderPass (Some ((frame st + 1) mod 2, particleCount st))]
      else [RenderPass None])"
  by (simp add: encodeFrame_def computeBindGroups_nth)

lemma renderLoop_fields:
  "staticBuffer (renderLoop now w h st) = staticBuffer st"
  "particleCount (renderLoop now w h st) = particleCount st"
  "frame (renderLoop now w h st) = frame st + 1"
  "console (renderLoop now w h st) = console st"
  by (simp_all add: renderLoop_def Let_def submit_def encodeFrame_eq)

lemma renderLoop_dynamicBuffers:
  "dynamicBuffers (renderLoop now w h st) =
     (if particleCount st > 0
      then (dynamicBuffers st)((frame st + 1) mod 2 :=
             dispatchWorkgroups (nat \<lceil>real (particleCount st) / real WORKGROUP_SIZE\<rceil>)
               (dynamicBuffers st (frame st mod 2)) (staticBuffer st)
               (uniformsBuffer (renderLoop now w h st))
               (dynamicBuffers st ((frame st + 1) mod 2)))
      else dynamicBuffers st)"
  by (simp add: renderLoop_def Let_def submit_def encodeFrame_eq)

lemma renderLoop_uniforms:
  "u_particleCount (uniformsBuffer (renderLoop now w h st)) = particleCount st"
  "u_aspectRatio (uniformsBuffer (renderLoop now w h st)) = w / h"
  by (simp_all add: renderLoop_def Let_def submit_def encodeFrame_eq)

lemma renderLoop_uniformsBuffer:
  "uniformsBuffer (renderLoop now w h st) =
     \<lparr> u_deltaTime = (if lastTime st > 0 then min 0.1 ((now - lastTime st) / 1000) else 0.016),
       u_particleCount = particleCount st, u_aspectRatio = w / h, u_padding = 0 \<rparr>"
  by (simp add: renderLoop_def Let_def submit_def encodeFrame_eq)

lemma renderLoop_particle:
  assumes "i < particleCount st"
  shows "dynamicBuffers (renderLoop now w h st) ((frame st + 1) mod 2) i =
     main_body (uniformsBuffer (renderLoop now w h st))
       (dynamicBuffers st (frame st mod 2) i) (staticBuffer st i)"
proof -
  from assms have "i < nat \<lceil>real (particleCount st) / real WORKGROUP_SIZE\<rceil> * WORKGROUP_SIZE"
    using workgroups_cover [of "particleCount st"] by linarith
  with assms show ?thesis
    by (simp add: renderLoop_dynamicBuffers dispatchWorkgroups_index renderLoop_uniforms)
qed

lemma renderFrames_fields:
  "staticBuffer (renderFrames fs st) = staticBuffer st \<and>
   particleCount (renderFrames fs st) = particleCount st \<and>
   frame (renderFrames fs st) = frame st + length fs"
  by (induction fs arbitrary: st) (auto simp: renderFrames_def renderLoop_fields)

subsection \<open>The roles of the two dynamic buffers\<close>

text \<open>
  Claim C4.  In the frame whose number is \<open>N = frame st\<close>, the commands are: when there is
  a particle, one compute pass that reads element \<open>N mod 2\<close> of \<^verbatim>\<open>dynamicBuffers\<close> and
  writes element \<open>(N + 1) mod 2\<close>, then the render pass drawing from element
  \<open>(N + 1) mod 2\<close>; otherwise a render pass that only clears.  The two elements differ.
  Running the frame leaves the element the simulation reads as it was, and puts into
  the other element, for every live particle, what the shader computes from the
  particle's entry in the element read, its static data and the uniforms of the frame
  (the entries from the particle count on stay as they were): this is the buffer the
  render pass of the frame draws from.  A frame adds one to the frame number, so the
  \<open>N\<close>-th frame after the start has the number \<open>N\<close>.
\<close>

theorem ping_pong_buffers:
  "encodeFrame st =
     (if particleCount st > 0
      then [ComputePass \<lparr> binding0 = frame st mod 2, binding1 = (frame st + 1) mod 2 \<rparr>
              (nat \<lceil>real (particleCount st) / real WORKGROUP_SIZE\<rceil>),
            RenderPass (Some ((frame st + 1) mod 2, particleCount st))]
      else [RenderPass None])
   \<and> frame st mod 2 \<noteq> (frame st + 1) mod 2
   \<and> dynamicBuffers (renderLoop now w h st) (frame st mod 2) = dynamicBuffers st (frame st mod 2)
   \<and> (0 < h \<longrightarrow>
        dynamicBuffers (renderLoop now w h st) ((frame st + 1) mod 2) i =
          (if i < particleCount st
           then main_body
                  \<lparr> u_deltaTime =
                      (if lastTime st > 0 then min 0.1 ((now - lastTime st) / 1000) else 0.016),
                    u_particleCount = particleCount st, u_aspectRatio = w / h, u_padding = 0 \<rparr>
                  (dynamicBuffers st (frame st mod 2) i) (staticBuffer st i)
           else dynamicBuffers st ((frame st + 1) mod 2) i))
   \<and> frame (renderLoop now w h st) = frame st + 1
   \<and> frame (renderFrames fs newRenderer) = length fs"
proof -
  have ne: "frame st mod 2 \<noteq> (frame st + 1) mod 2" by presburger
  have fs: "frame (renderFrames fs newRenderer) = length fs"
    using renderFrames_fields [of fs newRenderer] by (simp add: newRenderer_def)
  have out: "dynamicBuffers (renderLoop now w h st) ((frame st + 1) mod 2) i =
      (if i < particleCount st
       then main_body (uniformsBuffer (renderLoop now w h st))
              (dynamicBuffers st (frame st mod 2) i) (staticBuffer st i)
       else dynamicBuffers st ((frame st + 1) mod 2) i)"
  proof (cases "i < particleCount st")
    case True
    with renderLoop_particle [OF True, of now w h] show ?thesis by simp
  next
    case False
    then show ?thesis
      by (simp add: renderLoop_dynamicBuffers dispatchWorkgroups_index renderLoop_uniforms)
  qed
  from ne fs show ?thesis
    unfolding out
    by (simp add: encodeFrame_eq renderLoop_fields renderLoop_dynamicBuffers
        renderLoop_uniformsBuffer)
qed

theorem ping_pong_buffers_witness:
  "(0::real) < 2
   \<and> frame one_fast_particle mod 2 = 0
   \<and> (frame one_fast_particle + 1) mod 2 = 1
   \<and> encodeFrame one_fast_particle =
        [ComputePass \<lparr> binding0 = 0, binding1 = 1 \<rparr> 1, RenderPass (Some (1, 1))]
   \<and> dynamicBuffers (renderLoop 2000 1 2 one_fast_particle) 0 0 = moving (9, 20)
   \<and> dynamicBuffers (renderLoop 2000 1 2 one_fast_particle) 1 0 =
        \<lparr> pos = (0.4, 0.9), vel = (- 9, - 20), rotation = 0, padding = 0 \<rparr>
   \<and> dynamicBuffers (renderLoop 2000 1 2 one_fast_particle) 1 1 = moving (9, 20)"
proof -
  have f: "frame one_fast_particle = 0" "particleCount one_fast_particle = 1"
    "lastTime one_fast_particle = 1000" "staticBuffer one_fast_particle = (\<lambda>_. small_square)"
    "dynamicBuffers one_fast_particle = (\<lambda>_ _. moving (9, 20))"
    by (simp_all add: one_fast_particle_def newRenderer_def)
  have "\<lceil>(1::real) / 64\<rceil> = 1"
    by (intro ceiling_unique) auto
  then have g: "nat \<lceil>(1::real) / real WORKGROUP_SIZE\<rceil> = 1"
    by (simp add: WORKGROUP_SIZE_def)
  have m: "main_body \<lparr> u_deltaTime = 1 / 10, u_particleCount = k, u_aspectRatio = 1 / 2,
        u_padding = 0 \<rparr> (moving (9, 20)) small_square =
      \<lparr> pos = (2 / 5, 9 / 10), vel = (- 9, - 20), rotation = 0, padding = 0 \<rparr>" for k
    by (simp add: main_body_def moving_def small_square_def Let_def)
  from ping_pong_buffers [of one_fast_particle 2000 1 2 0 "[]"]
       ping_pong_buffers [of one_fast_particle 2000 1 2 1 "[]"]
  show ?thesis by (simp add: f g m)
qed

subsection \<open>Boundary reflection\<close>

lemma main_body_inside:
  "fits_viewport (u_aspectRatio uniforms) s \<Longrightarrow>
     inside_viewport (u_aspectRatio uniforms) s (main_body uniforms d_in s)"
  by (auto simp: fits_viewport_def inside_viewport_def main_body_def Let_def)

text \<open>Exact arithmetic: a particle that fits the viewport lies inside it after the step
  (lemma \<open>main_body_inside\<close>).  The next lemmas are about the rounded body.\<close>

lemma round_even_error: "\<bar>of_int (round_even q) - q\<bar> \<le> 1 / 2"
proof -
  have "of_int \<lfloor>q\<rfloor> \<le> q" "q < of_int \<lfloor>q\<rfloor> + 1" by linarith+
  then show ?thesis
    by (auto simp: round_even_def Let_def)
qed

lemma f32_exponent:
  assumes "2 powr of_int e \<le> \<bar>x\<bar>" and "\<bar>x\<bar> < 2 powr (of_int e + 1)"
  shows "f32 x = of_int (round_even (x / 2 powr (of_int e - 23))) * 2 powr (of_int e - 23)"
proof -
  have "0 < (2::real) powr of_int e" by simp
  with assms have x: "0 < \<bar>x\<bar>" by linarith
  then have "\<lfloor>log 2 \<bar>x\<bar>\<rfloor> = e"
    using assms by (simp add: floor_log_eq_powr_iff)
  with x show ?thesis by (auto simp: f32_def Let_def)
qed

lemma f32_error: "\<bar>f32 x - x\<bar> \<le> \<bar>x\<bar> / 2 ^ 24"
proof (cases "x = 0")
  case True
  then show ?thesis by (simp add: f32_def)
next
  case False
  define e where "e = \<lfloor>log 2 \<bar>x\<bar>\<rfloor>"
  define ulp :: real where "ulp = 2 powr (of_int e - 23)"
  have ulp: "0 < ulp" by (simp add: ulp_def)
  from False have "0 < \<bar>x\<bar>" by simp
  then have "2 powr of_int e \<le> \<bar>x\<bar>"
    using floor_log_eq_powr_iff [of "\<bar>x\<bar>" 2 e] by (simp add: e_def)
  moreover have "(2::real) powr of_int e = ulp * 2 ^ 23"
    by (simp add: ulp_def powr_diff)
  ultimately have big: "ulp * 2 ^ 23 \<le> \<bar>x\<bar>" by simp
  have "f32 x = of_int (round_even (x / ulp)) * ulp"
    using False by (simp add: f32_def Let_def e_def ulp_def)
  then have "f32 x - x = (of_int (round_even (x / ulp)) - x / ulp) * ulp"
    using ulp by (simp add: field_simps)
  then have "\<bar>f32 x - x\<bar> = \<bar>of_int (round_even (x / ulp)) - x / ulp\<bar> * ulp"
    using ulp by (simp add: abs_mult)
  also have "\<dots> \<le> 1 / 2 * ulp"
    using round_even_error [of "x / ulp"] ulp by (intro mult_right_mono) simp_all
  also have "\<dots> \<le> \<bar>x\<bar> / 2 ^ 24"
    using big by simp
  finally show ?thesis .
qed

lemma f32_03: "f32 0.3 = 10066330 / 2 ^ 25"
  using f32_exponent [of "-2" "0.3"]
  by (simp add: round_even_def Let_def powr_neg_numeral)

lemma f32_half: "f32 (10066330 / 2 ^ 26) = 10066330 / 2 ^ 26"
  using f32_exponent [of "-3" "10066330 / 2 ^ 26"]
  by (simp add: round_even_def Let_def powr_neg_numeral)

lemma f32_tie: "f32 (1 - 10066330 / 2 ^ 26) = 14260634 / 2 ^ 24"
  using f32_exponent [of "-1" "1 - 10066330 / 2 ^ 26"]
  by (simp add: round_even_def Let_def powr_neg_numeral)

lemma f32_bounds:
  assumes "0 \<le> x"
  shows "x - x / 2 ^ 24 \<le> f32 x" and "f32 x \<le> x + x / 2 ^ 24"
proof -
  from assms f32_error [of x] have "\<bar>f32 x - x\<bar> \<le> x / 2 ^ 24" by simp
  then have "f32 x - x \<le> x / 2 ^ 24" "- (f32 x - x) \<le> x / 2 ^ 24"
    by (simp_all only: abs_le_iff)
  then show "x - x / 2 ^ 24 \<le> f32 x" and "f32 x \<le> x + x / 2 ^ 24"
    by linarith+
qed

lemma main_body_fl_exact: "main_body_fl (\<lambda>x. x) uniforms d_in s = main_body uniforms d_in s"
  by (simp add: main_body_fl_def main_body_def)

lemma main_body_fl_pos:
  "fst (pos (main_body_fl fl uniforms d_in s)) =
     (let p = fl (fst (pos d_in) + fl (fst (vel d_in) * u_deltaTime uniforms));
          half = fl (fl (scale s * 0.5) * aspectRatio s);
          bound = u_aspectRatio uniforms
      in if fl (p - half) < - bound then fl (- bound + half)
         else if fl (p + half) > bound then fl (bound - half) else p)"
  "snd (pos (main_body_fl fl uniforms d_in s)) =
     (let p = fl (snd (pos d_in) + fl (snd (vel d_in) * u_deltaTime uniforms));
          half = fl (scale s * 0.5)
      in if fl (p - half) < - 1 then fl (- 1 + half)
         else if fl (p + half) > 1 then fl (1 - half) else p)"
  by (simp_all add: main_body_fl_def Let_def split: prod.splits)

lemma clamp_near_inside:
  assumes rel: "\<forall>x. \<bar>fl x - x\<bar> \<le> u * \<bar>x\<bar>" and fits: "half \<le> bound"
  shows "near_inside u bound half
     (if fl (p - half) < - bound then fl (- bound + half)
      else if fl (p + half) > bound then fl (bound - half) else p)"
proof -
  from rel have "\<bar>fl 1 - 1\<bar> \<le> u * \<bar>1\<bar>" by blast
  then have u: "0 \<le> u" by simp
  have nn: "0 \<le> u * \<bar>y\<bar>" for y using u by simp
  have e: "\<bar>fl y - y\<bar> \<le> u * \<bar>y\<bar>" for y using rel by blast
  have sym: "\<bar>- bound + half\<bar> = \<bar>bound - half\<bar>" by simp
  consider (left) "fl (p - half) < - bound"
    | (right) "\<not> fl (p - half) < - bound" "fl (p + half) > bound"
    | (free) "\<not> fl (p - half) < - bound" "\<not> fl (p + half) > bound"
    by blast
  then show ?thesis
  proof cases
    case left
    with e [of "- bound + half"] fits nn [of "bound - half"]
      nn [of "fl (- bound + half) - half"] nn [of "fl (- bound + half) + half"]
    show ?thesis
      unfolding near_inside_def sym by (simp add: distrib_left) linarith
  next
    case right
    with e [of "bound - half"] fits nn [of "bound - half"]
      nn [of "fl (bound - half) - half"] nn [of "fl (bound - half) + half"]
    show ?thesis
      unfolding near_inside_def by (simp add: distrib_left) linarith
  next
    case free
    with e [of "p - half"] e [of "p + half"] nn [of "bound - half"]
      nn [of "p - half"] nn [of "p + half"]
    show ?thesis
      unfolding near_inside_def by (simp add: distrib_left) linarith
  qed
qed

lemma rising_y: "snd (pos (main_body_fl f32 square_viewport rising app_square)) = 14260634 / 2 ^ 24"
proof -
  have v: "f32 (3 / 64) = 3 / 64"
    using f32_exponent [of "-5" "3 / 64"]
    by (simp add: round_even_def Let_def powr_neg_numeral)
  have p: "f32 (55 / 64) = 55 / 64"
    using f32_exponent [of "-1" "55 / 64"]
    by (simp add: round_even_def Let_def powr_neg_numeral)
  have h: "f32 (5033165 / 33554432) = 5033165 / 33554432"
    using f32_half by simp
  have lo: "\<not> f32 (55 / 64 - 10066330 / 2 ^ 26) < - 1"
    using f32_bounds(1) [of "55 / 64 - 10066330 / 2 ^ 26"] by simp
  have hi: "f32 (55 / 64 + 10066330 / 2 ^ 26) > 1"
    using f32_bounds(1) [of "55 / 64 + 10066330 / 2 ^ 26"] by simp
  show ?thesis
    unfolding main_body_fl_pos Let_def
    using lo hi f32_tie
    by (simp add: square_viewport_def rising_def app_square_def v p h)
qed

text \<open>
  Claim C6, as stated, fails by one rounding.  The application stores the scale 0.3 as
  the \<^verbatim>\<open>f32\<close> number \<open>10066330 / 2 ^ 25\<close>, so the half height is \<open>10066330 / 2 ^ 26\<close> and the
  exact upper bound of the position is \<open>1 - 10066330 / 2 ^ 26 = 14260633.5 / 2 ^ 24\<close>,
  which is not a number of the format.  When the top clamp fires the shader stores the
  rounded difference \<open>14260634 / 2 ^ 24\<close>, which is above the bound: the particle fits the
  viewport and is not inside it after the step.
\<close>

theorem rounded_clamp_exceeds_shrunk_bound:
  "scale app_square = f32 0.3
   \<and> fits_viewport (u_aspectRatio square_viewport) app_square
   \<and> snd (pos (main_body_fl f32 square_viewport rising app_square)) = 14260634 / 2 ^ 24
   \<and> 1 - scale app_square * 0.5 = 57042534 / 2 ^ 26
   \<and> \<not> inside_viewport (u_aspectRatio square_viewport) app_square
         (main_body_fl f32 square_viewport rising app_square)"
  using rising_y f32_03
  by (simp add: inside_viewport_def fits_viewport_def app_square_def square_viewport_def)

text \<open>
  Claim C6, amended.  Let every arithmetic result of the step be rounded with a relative
  error of at most \<open>u\<close> (for \<^verbatim>\<open>f32\<close>, \<open>u = 2 ^ - 24\<close>), and let the half-extent of the
  particle, as the shader computes it, fit the viewport.  Then after the step the
  position lies within the viewport bounds shrunk by that half-extent up to the rounding:
  on each axis it exceeds the shrunk bounds by at most \<open>u\<close> times the magnitudes of the
  values that were rounded (the shrunk bound, and the edge of the particle at the stored
  position).  Where nothing is rounded (the identity, \<open>u = 0\<close>), the body is \<open>main_body\<close> and
  the position lies inside the viewport exactly as the claim says.
\<close>

theorem position_within_viewport_up_to_rounding:
  "((\<forall>x. \<bar>fl x - x\<bar> \<le> u * \<bar>x\<bar>)
      \<and> fl (fl (scale s * 0.5) * aspectRatio s) \<le> u_aspectRatio uniforms
      \<and> fl (scale s * 0.5) \<le> 1 \<longrightarrow>
        near_inside u (u_aspectRatio uniforms) (fl (fl (scale s * 0.5) * aspectRatio s))
          (fst (pos (main_body_fl fl uniforms d_in s)))
        \<and> near_inside u 1 (fl (scale s * 0.5))
          (snd (pos (main_body_fl fl uniforms d_in s))))
   \<and> main_body_fl (\<lambda>x. x) uniforms d_in s = main_body uniforms d_in s
   \<and> (fits_viewport (u_aspectRatio uniforms) s \<longrightarrow>
        inside_viewport (u_aspectRatio uniforms) s (main_body_fl (\<lambda>x. x) uniforms d_in s))"
proof -
  have "near_inside u (u_aspectRatio uniforms) (fl (fl (scale s * 0.5) * aspectRatio s))
          (fst (pos (main_body_fl fl uniforms d_in s)))
        \<and> near_inside u 1 (fl (scale s * 0.5))
          (snd (pos (main_body_fl fl uniforms d_in s)))"
    if rel: "\<forall>x. \<bar>fl x - x\<bar> \<le> u * \<bar>x\<bar>"
      and w: "fl (fl (scale s * 0.5) * aspectRatio s) \<le> u_aspectRatio uniforms"
      and h: "fl (scale s * 0.5) \<le> 1"
    unfolding main_body_fl_pos Let_def
    using clamp_near_inside [OF rel w] clamp_near_inside [OF rel h] by simp
  moreover have "inside_viewport (u_aspectRatio uniforms) s
      (main_body_fl (\<lambda>x. x) uniforms d_in s)"
    if "fits_viewport (u_aspectRatio uniforms) s"
    using that by (simp add: main_body_fl_exact main_body_inside)
  ultimately show ?thesis
    using main_body_fl_exact by blast
qed

theorem position_within_viewport_up_to_rounding_witness:
  "(\<forall>x. \<bar>f32 x - x\<bar> \<le> 1 / 2 ^ 24 * \<bar>x\<bar>)
   \<and> f32 (f32 (scale app_square * 0.5) * aspectRatio app_square)
        \<le> u_aspectRatio square_viewport
   \<and> f32 (scale app_square * 0.5) \<le> 1
   \<and> near_inside (1 / 2 ^ 24) 1 (10066330 / 2 ^ 26)
        (snd (pos (main_body_fl f32 square_viewport rising app_square)))
   \<and> snd (pos (main_body_fl f32 square_viewport rising app_square)) = 14260634 / 2 ^ 24
   \<and> fits_viewport (u_aspectRatio square_viewport) app_square
   \<and> inside_viewport (u_aspectRatio square_viewport) app_square
        (main_body square_viewport rising app_square)
   \<and> snd (pos (main_body square_viewport rising app_square)) = 57042534 / 2 ^ 26"
proof -
  have rel: "\<forall>x. \<bar>f32 x - x\<bar> \<le> 1 / 2 ^ 24 * \<bar>x\<bar>"
    using f32_error by simp
  have h: "f32 (scale app_square * 0.5) = 10066330 / 2 ^ 26"
    using f32_half by (simp add: app_square_def)
  have w: "f32 (f32 (scale app_square * 0.5) * aspectRatio app_square) = 10066330 / 2 ^ 26"
    unfolding h using f32_half by (simp add: app_square_def)
  have f: "fits_viewport (u_aspectRatio square_viewport) app_square"
    by (simp add: fits_viewport_def app_square_def square_viewport_def)
  have e: "snd (pos (main_body square_viewport rising app_square)) = 57042534 / 2 ^ 26"
    by (simp add: main_body_def square_viewport_def rising_def app_square_def Let_def)
  have a: "u_aspectRatio square_viewport = 1"
    by (simp add: square_viewport_def)
  note t = position_within_viewport_up_to_rounding
         [of f32 "1 / 2 ^ 24" app_square square_viewport rising]
  have w1: "f32 (f32 (scale app_square * 0.5) * aspectRatio app_square)
      \<le> u_aspectRatio square_viewport"
    and h1: "f32 (scale app_square * 0.5) \<le> 1"
    using w h a by simp_all
  from t rel w1 h1 have "near_inside (1 / 2 ^ 24) 1 (f32 (scale app_square * 0.5))
      (snd (pos (main_body_fl f32 square_viewport rising app_square)))"
    by blast
  then have ni: "near_inside (1 / 2 ^ 24) 1 (10066330 / 2 ^ 26)
      (snd (pos (main_body_fl f32 square_viewport rising app_square)))"
    unfolding h .
  from t f have "inside_viewport (u_aspectRatio square_viewport) app_square
      (main_body_fl (\<lambda>x. x) square_viewport rising app_square)"
    by blast
  moreover from t have "main_body_fl (\<lambda>x. x) square_viewport rising app_square =
      main_body square_viewport rising app_square"
    by blast
  ultimately have ins: "inside_viewport (u_aspectRatio square_viewport) app_square
      (main_body square_viewport rising app_square)"
    by simp
  from rel w1 h1 ni rising_y f ins e show ?thesis by blast
qed

text \<open>
  Claim C7.  On each axis the velocity the step stores is decided by the branch of the
  boundary test: the absolute value of the incoming component (so not negative) when
  the left or the bottom clamp fires, its negation (so not positive) when the right or
  the top clamp fires, and the incoming component itself when no clamp fires on that
  axis.  The position stored with it is the clamped one, or the integrated one.
\<close>

theorem reflection_velocity_sign:
  "(clamps_left uniforms d_in s \<longrightarrow>
      fst (vel (main_body uniforms d_in s)) = \<bar>fst (vel d_in)\<bar>
      \<and> 0 \<le> fst (vel (main_body uniforms d_in s))
      \<and> fst (pos (main_body uniforms d_in s)) =
          - u_aspectRatio uniforms + scale s * 0.5 * aspectRatio s)
   \<and> (clamps_right uniforms d_in s \<longrightarrow>
      fst (vel (main_body uniforms d_in s)) = - \<bar>fst (vel d_in)\<bar>
      \<and> fst (vel (main_body uniforms d_in s)) \<le> 0
      \<and> fst (pos (main_body uniforms d_in s)) =
          u_aspectRatio uniforms - scale s * 0.5 * aspectRatio s)
   \<and> (\<not> clamps_left uniforms d_in s \<and> \<not> clamps_right uniforms d_in s \<longrightarrow>
      fst (vel (main_body uniforms d_in s)) = fst (vel d_in)
      \<and> fst (pos (main_body uniforms d_in s)) =
          fst (pos d_in) + fst (vel d_in) * u_deltaTime uniforms)
   \<and> (clamps_bottom uniforms d_in s \<longrightarrow>
      snd (vel (main_body uniforms d_in s)) = \<bar>snd (vel d_in)\<bar>
      \<and> 0 \<le> snd (vel (main_body uniforms d_in s))
      \<and> snd (pos (main_body uniforms d_in s)) = - 1 + scale s * 0.5)
   \<and> (clamps_top uniforms d_in s \<longrightarrow>
      snd (vel (main_body uniforms d_in s)) = - \<bar>snd (vel d_in)\<bar>
      \<and> snd (vel (main_body uniforms d_in s)) \<le> 0
      \<and> snd (pos (main_body uniforms d_in s)) = 1 - scale s * 0.5)
   \<and> (\<not> clamps_bottom uniforms d_in s \<and> \<not> clamps_top uniforms d_in s \<longrightarrow>
      snd (vel (main_body uniforms d_in s)) = snd (vel d_in)
      \<and> snd (pos (main_body uniforms d_in s)) =
          snd (pos d_in) + snd (vel d_in) * u_deltaTime uniforms)"
  by (simp add: clamps_left_def clamps_right_def clamps_bottom_def clamps_top_def
      main_body_def Let_def)

theorem reflection_velocity_sign_witness:
  "clamps_right viewport (moving (0.9, 2)) small_square
   \<and> clamps_top viewport (moving (0.9, 2)) small_square
   \<and> vel (main_body viewport (moving (0.9, 2)) small_square) = (- 0.9, - 2)
   \<and> pos (main_body viewport (moving (0.9, 2)) small_square) = (0.4, 0.9)
   \<and> clamps_left viewport (moving (- 0.9, - 2)) small_square
   \<and> clamps_bottom viewport (moving (- 0.9, - 2)) small_square
   \<and> vel (main_body viewport (moving (- 0.9, - 2)) small_square) = (0.9, 2)
   \<and> pos (main_body viewport (moving (- 0.9, - 2)) small_square) = (- 0.4, - 0.9)
   \<and> \<not> clamps_left viewport (moving (0.1, - 0.3)) small_square
   \<and> \<not> clamps_right viewport (moving (0.1, - 0.3)) small_square
   \<and> \<not> clamps_bottom viewport (moving (0.1, - 0.3)) small_square
   \<and> \<not> clamps_top viewport (moving (0.1, - 0.3)) small_square
   \<and> vel (main_body viewport (moving (0.1, - 0.3)) small_square) = (0.1, - 0.3)
   \<and> pos (main_body viewport (moving (0.1, - 0.3)) small_square) = (0.1, - 0.3)"
proof -
  have c: "clamps_right viewport (moving (0.9, 2)) small_square"
    "clamps_top viewport (moving (0.9, 2)) small_square"
    "clamps_left viewport (moving (- 0.9, - 2)) small_square"
    "clamps_bottom viewport (moving (- 0.9, - 2)) small_square"
    "\<not> clamps_left viewport (moving (0.1, - 0.3)) small_square"
    "\<not> clamps_right viewport (moving (0.1, - 0.3)) small_square"
    "\<not> clamps_bottom viewport (moving (0.1, - 0.3)) small_square"
    "\<not> clamps_top viewport (moving (0.1, - 0.3)) small_square"
    by (simp_all add: clamps_left_def clamps_right_def clamps_bottom_def clamps_top_def
        viewport_def moving_def small_square_def)
  have v: "u_aspectRatio viewport = 0.5" "u_deltaTime viewport = 1"
    "scale small_square = 0.2" "aspectRatio small_square = 1"
    "vel (moving v) = v" "pos (moving v) = (0, 0)" for v
    by (simp_all add: viewport_def small_square_def moving_def)
  from reflection_velocity_sign [of viewport "moving (0.9, 2)" small_square]
       reflection_velocity_sign [of viewport "moving (- 0.9, - 2)" small_square]
       reflection_velocity_sign [of viewport "moving (0.1, - 0.3)" small_square] c
  show ?thesis
    by (simp add: v prod_eq_iff)
qed

subsection \<open>Static data\<close>

lemma fits_buffer: "0 < stride \<Longrightarrow> n * stride + stride \<le> m * stride \<longleftrightarrow> n < (m::nat)"
proof -
  assume "0 < stride"
  have "n * stride + stride = Suc n * stride" by simp
  with \<open>0 < stride\<close> show ?thesis
    by (simp only: mult_le_cancel2) auto
qed

lemma writeBuffer_in_range:
  "0 < stride \<Longrightarrow> n < MAX_PARTICLES \<Longrightarrow>
     writeBuffer stride buffer (n * stride) data = buffer(n := data)"
  by (simp add: writeBuffer_def fits_buffer)

lemma writeBuffer_out_of_range:
  "0 < stride \<Longrightarrow> MAX_PARTICLES \<le> n \<Longrightarrow>
     writeBuffer stride buffer (n * stride) data = buffer"
  by (simp add: writeBuffer_def fits_buffer)

lemma addParticle_attempt_Returns: "fst (addParticle_attempt it st) = Returns"
  by (cases "awaited it")
    (simp_all add: addParticle_attempt_def addParticle_try_def addParticle_catch_def Let_def)

lemma addParticle_attempt_eq:
  "addParticle_attempt it st = (Returns, addParticle_iteration it st)"
  using addParticle_attempt_Returns [of it st]
  by (simp add: addParticle_iteration_def prod_eq_iff)

lemma addParticle_loop_eq:
  "addParticle_loop its st = (Returns, fold addParticle_iteration its st)"
  by (induction its arbitrary: st) (simp_all add: addParticle_attempt_eq)

lemma addParticle_eq:
  "addParticle random_cnt its st =
     (if particleCount st \<ge> MAX_PARTICLES then (Fulfilled, st)
      else (Fulfilled, fold addParticle_iteration
              (map its [0 ..< nat \<lfloor>random_cnt * 3 + 2.5 + 1 / 2\<rfloor>]) st))"
  by (simp add: addParticle_def addParticle_loop_eq Let_def)

lemma addParticle_iteration_rejected:
  "awaited it = Inl e \<Longrightarrow> addParticle_iteration it st = st\<lparr> console := console st @ [e] \<rparr>"
  by (simp add: addParticle_iteration_def addParticle_attempt_def addParticle_try_def
      addParticle_catch_def)

lemma addParticle_iteration_resolved:
  assumes "awaited it = Inr texture"
  shows "particleCount (addParticle_iteration it st) = particleCount st + 1"
    and "console (addParticle_iteration it st) = console st"
    and "particleCount st < MAX_PARTICLES \<Longrightarrow>
      staticBuffer (addParticle_iteration it st) =
       (staticBuffer st)(particleCount st :=
         \<lparr> scale = 0.3,
           aspectRatio = real (fst (bitmap texture)) / real (snd (bitmap texture)),
           angularVel = (random_angularVel it - 0.5) * 5,
           texIndex = textureIndex texture,
           uvScale = (real (fst (bitmap texture)) / real TEXTURE_SIZE,
                      real (snd (bitmap texture)) / real TEXTURE_SIZE),
           s_padding = (0, 0) \<rparr>)"
  using assms
  by (simp_all add: addParticle_iteration_def addParticle_attempt_def addParticle_try_def
      Let_def writeBuffer_in_range STATIC_PARTICLE_STRIDE_def)

text \<open>
  Claim C8.  Any number of frames leaves the static buffer as it was.  In particular
  the static fields that a spawn writes for its particle (below the capacity) are read
  back unchanged after any number of frames.
\<close>

theorem static_data_round_trip:
  "staticBuffer (renderFrames fs st) = staticBuffer st
   \<and> (awaited it = Inr texture \<and> particleCount st < MAX_PARTICLES \<longrightarrow>
        staticBuffer (renderFrames fs (addParticle_iteration it st)) (particleCount st) =
          \<lparr> scale = 0.3,
            aspectRatio = real (fst (bitmap texture)) / real (snd (bitmap texture)),
            angularVel = (random_angularVel it - 0.5) * 5,
            texIndex = textureIndex texture,
            uvScale = (real (fst (bitmap texture)) / real TEXTURE_SIZE,
                       real (snd (bitmap texture)) / real TEXTURE_SIZE),
            s_padding = (0, 0) \<rparr>)"
  by (simp add: renderFrames_fields addParticle_iteration_resolved)

theorem static_data_round_trip_witness:
  "awaited resolved_iteration = Inr \<lparr> textureIndex = 3, bitmap = (512, 256) \<rparr>
   \<and> particleCount newRenderer < MAX_PARTICLES
   \<and> staticBuffer (renderFrames [(16, 800, 600), (32, 800, 600)]
        (addParticle_iteration resolved_iteration newRenderer)) 0 =
       \<lparr> scale = 0.3, aspectRatio = 2, angularVel = 0, texIndex = 3,
         uvScale = (0.5, 0.25), s_padding = (0, 0) \<rparr>"
proof -
  have a: "awaited resolved_iteration = Inr \<lparr> textureIndex = 3, bitmap = (512, 256) \<rparr>"
    "random_angularVel resolved_iteration = 0.5"
    by (simp_all add: resolved_iteration_def)
  have p: "particleCount newRenderer = 0" "particleCount newRenderer < MAX_PARTICLES"
    by (simp_all add: newRenderer_def MAX_PARTICLES_def)
  from static_data_round_trip [of "[(16, 800, 600), (32, 800, 600)]" newRenderer
          resolved_iteration "\<lparr> textureIndex = 3, bitmap = (512, 256) \<rparr>"] a p
  show ?thesis by (simp add: TEXTURE_SIZE_def)
qed

subsection \<open>Indices from the particle count on\<close>

text \<open>
  Claim C10.  An invocation whose index is not below the particle count of the uniforms
  returns the output buffer as it found it, so a dispatch of any number of workgroups
  leaves the elements at such indices unchanged; and a frame leaves unchanged, in both
  dynamic buffers, every element whose index is not below the particle count.
\<close>

theorem beyond_particleCount_untouched:
  "(u_particleCount uniforms \<le> i \<longrightarrow>
      main dynamic_in static_data uniforms i dynamic_out = dynamic_out
      \<and> dispatchWorkgroups n dynamic_in static_data uniforms dynamic_out i = dynamic_out i)
   \<and> (particleCount st \<le> i \<longrightarrow>
      dynamicBuffers (renderLoop now w h st) k i = dynamicBuffers st k i)"
  by (simp add: main_def dispatchWorkgroups_index renderLoop_dynamicBuffers renderLoop_uniforms)

theorem beyond_particleCount_untouched_witness:
  "u_particleCount viewport \<le> 5
   \<and> main (\<lambda>_. moving (9, 20)) (\<lambda>_. small_square) viewport 5 (\<lambda>_. moving (1, 1))
       = (\<lambda>_. moving (1, 1))
   \<and> dispatchWorkgroups 1 (\<lambda>_. moving (9, 20)) (\<lambda>_. small_square) viewport
       (\<lambda>_. moving (1, 1)) 5 = moving (1, 1)
   \<and> particleCount one_fast_particle \<le> 5
   \<and> dynamicBuffers (renderLoop 2000 1 2 one_fast_particle) 1 5 = moving (9, 20)"
proof -
  have a: "u_particleCount viewport \<le> 5" "particleCount one_fast_particle \<le> 5"
    "dynamicBuffers one_fast_particle 1 5 = moving (9, 20)"
    by (simp_all add: viewport_def one_fast_particle_def newRenderer_def)
  from beyond_particleCount_untouched [of viewport 5 "\<lambda>_. moving (9, 20)" "\<lambda>_. small_square"
         "\<lambda>_. moving (1, 1)" 1 one_fast_particle 2000 1 2 1] a
  show ?thesis by simp
qed

subsection \<open>Spawning\<close>

text \<open>
  Claim C9, as stated, fails in its last part: \<^verbatim>\<open>addParticle\<close> catches the rejection of
  every texture load of its batch and logs it, and the promise it returns to its caller
  fulfils.
\<close>

lemma batch_of_three: "nat \<lfloor>(0::real) * 3 + 2.5 + 1 / 2\<rfloor> = 3" "[0 ..< 3] = [0, 1, 2]"
  by (simp_all add: upt_rec)

theorem failure_is_logged_not_surfaced:
  "fst (addParticle 0 (\<lambda>_. rejected_iteration) newRenderer) = Fulfilled
   \<and> console (snd (addParticle 0 (\<lambda>_. rejected_iteration) newRenderer)) =
        [LoadFailure ''a.png'', LoadFailure ''a.png'', LoadFailure ''a.png'']"
proof -
  have r: "awaited rejected_iteration = Inl (LoadFailure ''a.png'')"
    by (simp add: rejected_iteration_def)
  show ?thesis
    by (simp add: addParticle_eq batch_of_three addParticle_iteration_rejected [OF r]
        newRenderer_def MAX_PARTICLES_def)
qed

text \<open>
  Claim C9, amended.  When the texture load of a spawn attempt is rejected, the try
  block throws before it has changed anything, and the catch block of the same iteration
  logs the error to the console: no buffer is written, and the particle count, the frame
  number and the uniforms stay as they were, so that the next frame computes what it
  would have computed without the attempt.  The loop then goes on with the remaining
  attempts of the batch.  No iteration and no batch ends by throwing, so the promise of
  \<^verbatim>\<open>addParticle\<close> fulfils in every case, and below the capacity every attempt of the batch
  is run, whichever of them fail.
\<close>

theorem failed_spawn_is_abandoned:
  "(awaited it = Inl e \<longrightarrow>
      addParticle_try it st = (Throws e, st)
      \<and> addParticle_attempt it st = (Returns, st\<lparr> console := console st @ [e] \<rparr>)
      \<and> addParticle_iteration it st = st\<lparr> console := console st @ [e] \<rparr>
      \<and> renderLoop now w h (addParticle_iteration it st) =
          (renderLoop now w h st)\<lparr> console := console st @ [e] \<rparr>
      \<and> addParticle_loop (it # rest) st =
          addParticle_loop rest (st\<lparr> console := console st @ [e] \<rparr>))
   \<and> fst (addParticle_attempt it st) = Returns
   \<and> fst (addParticle_loop batch st) = Returns
   \<and> fst (addParticle random_cnt its st) = Fulfilled
   \<and> (particleCount st < MAX_PARTICLES \<longrightarrow>
        snd (addParticle random_cnt its st) =
          fold addParticle_iteration
            (map its [0 ..< nat \<lfloor>random_cnt * 3 + 2.5 + 1 / 2\<rfloor>]) st)"
proof -
  have "addParticle_try it st = (Throws e, st)
      \<and> addParticle_attempt it st = (Returns, st\<lparr> console := console st @ [e] \<rparr>)
      \<and> addParticle_iteration it st = st\<lparr> console := console st @ [e] \<rparr>
      \<and> renderLoop now w h (addParticle_iteration it st) =
          (renderLoop now w h st)\<lparr> console := console st @ [e] \<rparr>
      \<and> addParticle_loop (it # rest) st =
          addParticle_loop rest (st\<lparr> console := console st @ [e] \<rparr>)"
    if "awaited it = Inl e"
    using that
    by (simp add: addParticle_iteration_def addParticle_attempt_def addParticle_try_def
        addParticle_catch_def Let_def renderLoop_def submit_def encodeFrame_eq)
  moreover have "fst (addParticle_loop batch st) = Returns"
    by (simp add: addParticle_loop_eq)
  moreover have "fst (addParticle random_cnt its st) = Fulfilled"
    by (simp add: addParticle_eq)
  moreover have "snd (addParticle random_cnt its st) =
      fold addParticle_iteration (map its [0 ..< nat \<lfloor>random_cnt * 3 + 2.5 + 1 / 2\<rfloor>]) st"
    if "particleCount st < MAX_PARTICLES"
    using that by (simp add: addParticle_eq)
  ultimately show ?thesis
    using addParticle_attempt_Returns [of it st] by blast
qed

theorem failed_spawn_is_abandoned_witness:
  "awaited rejected_iteration = Inl (LoadFailure ''a.png'')
   \<and> addParticle_try rejected_iteration one_fast_particle =
        (Throws (LoadFailure ''a.png''), one_fast_particle)
   \<and> addParticle_iteration rejected_iteration one_fast_particle =
        one_fast_particle\<lparr> console := [LoadFailure ''a.png''] \<rparr>
   \<and> renderLoop 2000 1 2 (addParticle_iteration rejected_iteration one_fast_particle) =
        (renderLoop 2000 1 2 one_fast_particle)\<lparr> console := [LoadFailure ''a.png''] \<rparr>
   \<and> addParticle_loop [rejected_iteration, resolved_iteration] one_fast_particle =
        addParticle_loop [resolved_iteration]
          (one_fast_particle\<lparr> console := [LoadFailure ''a.png''] \<rparr>)
   \<and> particleCount (snd (addParticle_loop [rejected_iteration, resolved_iteration]
        one_fast_particle)) = 2
   \<and> fst (addParticle 0 (\<lambda>_. rejected_iteration) one_fast_particle) = Fulfilled
   \<and> particleCount one_fast_particle < MAX_PARTICLES
   \<and> snd (addParticle 0 (\<lambda>_. rejected_iteration) one_fast_particle) =
        fold addParticle_iteration
          [rejected_iteration, rejected_iteration, rejected_iteration] one_fast_particle"
proof -
  have a: "awaited rejected_iteration = Inl (LoadFailure ''a.png'')"
    by (simp add: rejected_iteration_def)
  have r: "awaited resolved_iteration = Inr \<lparr> textureIndex = 3, bitmap = (512, 256) \<rparr>"
    by (simp add: resolved_iteration_def)
  have c: "console one_fast_particle = []" "particleCount one_fast_particle = 1"
    "particleCount one_fast_particle < MAX_PARTICLES"
    by (simp_all add: one_fast_particle_def newRenderer_def MAX_PARTICLES_def)
  have two: "particleCount (snd (addParticle_loop [resolved_iteration]
      (one_fast_particle\<lparr> console := [LoadFailure ''a.png''] \<rparr>))) = 2"
    by (simp add: addParticle_loop_eq addParticle_iteration_resolved(1) [OF r] c)
  from failed_spawn_is_abandoned [of rejected_iteration "LoadFailure ''a.png''"
          one_fast_particle 2000 1 2 "[resolved_iteration]" "[]" 0 "\<lambda>_. rejected_iteration"]
       a c two
  show ?thesis by (auto simp: batch_of_three)
qed

lemma addParticle_batch_of_three:
  assumes "particleCount st < MAX_PARTICLES"
  shows "particleCount (snd (addParticle 0 (\<lambda>_. resolved_iteration) st)) = particleCount st + 3"
proof -
  have r: "awaited resolved_iteration = Inr \<lparr> textureIndex = 3, bitmap = (512, 256) \<rparr>"
    by (simp add: resolved_iteration_def)
  from assms show ?thesis
    by (simp add: addParticle_eq batch_of_three addParticle_iteration_resolved(1) [OF r])
qed

lemma addParticle_iteration_beyond_capacity:
  assumes "awaited it = Inr texture" and "MAX_PARTICLES \<le> particleCount st"
  shows "dynamicBuffers (addParticle_iteration it st) = dynamicBuffers st"
    and "staticBuffer (addParticle_iteration it st) = staticBuffer st"
    and "particleCount (addParticle_iteration it st) = particleCount st + 1"
  using assms
  by (simp_all add: addParticle_iteration_def addParticle_attempt_def addParticle_try_def
      Let_def writeBuffer_out_of_range DYNAMIC_PARTICLE_STRIDE_def STATIC_PARTICLE_STRIDE_def)

lemma addParticle_full:
  "MAX_PARTICLES \<le> particleCount st \<Longrightarrow> addParticle random_cnt its st = (Fulfilled, st)"
  by (simp add: addParticle_eq)

lemma addParticle_calls_Suc:
  "addParticle_calls (Suc k) st =
     snd (addParticle 0 (\<lambda>_. resolved_iteration) (addParticle_calls k st))"
  by (simp add: addParticle_calls_def)

lemma addParticle_calls_count:
  "k \<le> 3334 \<Longrightarrow> particleCount (addParticle_calls k newRenderer) = 3 * k"
proof (induction k)
  case 0
  show ?case by (simp add: addParticle_calls_def newRenderer_def)
next
  case (Suc k)
  then have ih: "particleCount (addParticle_calls k newRenderer) = 3 * k" by simp
  from Suc.prems have "3 * k < MAX_PARTICLES" by (simp add: MAX_PARTICLES_def)
  with ih have "particleCount (snd (addParticle 0 (\<lambda>_. resolved_iteration)
      (addParticle_calls k newRenderer))) = 3 * k + 3"
    by (simp add: addParticle_batch_of_three)
  then show ?case by (simp add: addParticle_calls_Suc)
qed

text \<open>
  Claim C3.  From the fresh renderer, 3333 calls of \<^verbatim>\<open>addParticle\<close> with batches of three
  bring the particle count to 9999.  The guard of the next call passes, and its batch of
  three takes the count to 10002, above \<^verbatim>\<open>MAX_PARTICLES\<close>: the loop does not test the count
  again.  Only then is a further call a no-op.
\<close>

theorem batch_overruns_MAX_PARTICLES:
  "particleCount (addParticle_calls 3333 newRenderer) = 9999
   \<and> particleCount (addParticle_calls 3334 newRenderer) = 10002
   \<and> MAX_PARTICLES < particleCount (addParticle_calls 3334 newRenderer)
   \<and> addParticle_calls 3335 newRenderer = addParticle_calls 3334 newRenderer"
proof -
  have a: "particleCount (addParticle_calls 3333 newRenderer) = 9999"
    and b: "particleCount (addParticle_calls 3334 newRenderer) = 10002"
    by (simp_all add: addParticle_calls_count)
  have "MAX_PARTICLES \<le> particleCount (addParticle_calls 3334 newRenderer)"
    using b by (simp add: MAX_PARTICLES_def)
  then have "addParticle_calls (Suc 3334) newRenderer = addParticle_calls 3334 newRenderer"
    by (simp only: addParticle_calls_Suc addParticle_full snd_conv)
  moreover have "Suc 3334 = 3335" by simp
  ultimately have "addParticle_calls 3335 newRenderer = addParticle_calls 3334 newRenderer"
    by (simp only:)
  with a b show ?thesis by (simp add: MAX_PARTICLES_def)
qed

end
